theory Spec2Isabelle
  imports Main
begin

section \<open>Package server of ws2wh: data model\<close>

text \<open>
  The gateway of \<^verbatim>\<open>server/server.go\<close>: a \<^verbatim>\<open>Server\<close> keeps a Go map from session
  identifiers to session pointers; \<^verbatim>\<open>handle\<close> serves a WebSocket upgrade and \<^verbatim>\<open>send\<close>
  serves a reply POST of the backend. Byte slices and Go strings are character lists, a Go
  \<^verbatim>\<open>error\<close> is its message, and a nil error is \<open>None\<close>.
\<close>

type_synonym bytes = string
type_synonym go_error = string

text \<open>
  The packages \<^verbatim>\<open>backend\<close>, \<^verbatim>\<open>frontend\<close> and \<^verbatim>\<open>session\<close> are imported by the source
  file. Their constructors are kept as constructors of the values they build:
  \<^verbatim>\<open>backend.CreateBackend(url)\<close>, \<^verbatim>\<open>frontend.NewWsHandler()\<close> (each call allocates a new
  handler, told apart here by a number) and \<^verbatim>\<open>session.NewSession(params)\<close>.
\<close>

datatype backend = CreateBackend string

datatype ws_handler = NewWsHandler nat

record SessionParams =
  Id_param :: string
  Backend :: backend
  ReplyChannel :: string
  Connection :: ws_handler

datatype session = NewSession SessionParams

fun params :: "session \<Rightarrow> SessionParams" where
  "params (NewSession p) = p"

text \<open>The routes that \<^verbatim>\<open>CreateServer\<close> registers on the echo instance.\<close>

datatype http_method = GET | POST

datatype route_handler = Route_handle | Route_send

type_synonym route = "http_method \<times> string \<times> route_handler"

text \<open>
  \<^verbatim>\<open>type Server struct\<close>. The field \<^verbatim>\<open>sessions\<close> is a \<^verbatim>\<open>map[string]*session.Session\<close>:
  reading a key that is absent yields the nil pointer, which is \<open>None\<close> here.
\<close>

record Server =
  DefaultBackend :: backend
  frontendAddr :: string
  backendUrl :: string
  sessions :: "string \<rightharpoonup> session"
  echoStack :: "route list"

text \<open>\<^verbatim>\<open>type SessionResponse struct\<close>; \<^verbatim>\<open>Message\<close> is omitted from the JSON when empty.\<close>

record SessionResponse =
  Success :: bool
  Message :: "string option"

text \<open>
  What the handlers read of an \<^verbatim>\<open>echo.Context\<close>: \<^verbatim>\<open>c.Scheme()\<close>, \<^verbatim>\<open>c.Request().Host\<close>,
  \<^verbatim>\<open>c.Param(name)\<close>, \<^verbatim>\<open>c.Request().Header.Get(key)\<close> and the request body. The body is
  an \<^verbatim>\<open>io.Reader\<close>, given by the results of its successive \<^verbatim>\<open>Read\<close> calls: the bytes
  read and the error returned with them.
\<close>

datatype read_err = EOF | ReadError go_error

type_synonym reader = "(bytes \<times> read_err option) list"

record Context =
  Scheme :: string
  Host :: string
  Param :: "string \<Rightarrow> string"
  HeaderGet :: "string \<Rightarrow> string"
  Body :: reader

text \<open>
  \<^verbatim>\<open>io.ReadAll\<close> of the Go standard library: it appends what each \<^verbatim>\<open>Read\<close> returns until
  a \<^verbatim>\<open>Read\<close> reports an error, and returns the bytes gathered so far together with that
  error, where \<^verbatim>\<open>io.EOF\<close> is reported as nil. A reader with no further result is at its
  end.
\<close>

fun ReadAll :: "reader \<Rightarrow> bytes \<times> go_error option" where
  "ReadAll [] = ([], None)"
| "ReadAll ((b, None) # rs) = (case ReadAll rs of (bs, e) \<Rightarrow> (b @ bs, e))"
| "ReadAll ((b, Some EOF) # rs) = (b, None)"
| "ReadAll ((b, Some (ReadError e)) # rs) = (b, Some e)"

text \<open>
  The effects of a handler, in program order: writes to the \<^verbatim>\<open>sessions\<close> map, the
  \<^verbatim>\<open>go\<close> statement starting \<^verbatim>\<open>Receive\<close>, the calls of \<^verbatim>\<open>handler.Handle\<close>,
  \<^verbatim>\<open>session.Send\<close> and \<^verbatim>\<open>session.Close\<close> with their receiver, \<^verbatim>\<open>c.Logger().Error\<close> and
  \<^verbatim>\<open>c.JSON\<close> with its status code.
\<close>

datatype event =
    MapStore string session
  | MapDelete string
  | GoReceive "session option"
  | HandlerHandle ws_handler
  | SessionSend "session option" bytes
  | SessionClose "session option"
  | LoggerError go_error
  | JSON nat SessionResponse

text \<open>A handler returns its \<^verbatim>\<open>error\<close> value or leaves by a panic.\<close>

datatype outcome = Returned "go_error option" | Panicked

type_synonym handled = "Server \<times> event list \<times> outcome"

definition server_after :: "handled \<Rightarrow> Server" where
  "server_after r = fst r"

definition effects :: "handled \<Rightarrow> event list" where
  "effects r = fst (snd r)"

definition result :: "handled \<Rightarrow> outcome" where
  "result r = snd (snd r)"

fun is_SessionSend :: "event \<Rightarrow> bool" where
  "is_SessionSend (SessionSend p b) = True"
| "is_SessionSend e = False"

fun is_MapStore :: "event \<Rightarrow> bool" where
  "is_MapStore (MapStore k t) = True"
| "is_MapStore e = False"

fun is_MapDelete :: "event \<Rightarrow> bool" where
  "is_MapDelete (MapDelete k) = True"
| "is_MapDelete e = False"

text \<open>
  What \<^verbatim>\<open>send\<close> uses of the packages that are not part of this file: the constants
  \<^verbatim>\<open>backend.CommandHeader\<close> and \<^verbatim>\<open>backend.TerminateSessionCommand\<close>, and the error that
  \<^verbatim>\<open>Close\<close> returns on a session (nil is \<open>None\<close>).
\<close>

record Extern =
  CommandHeader :: string
  TerminateSessionCommand :: string
  Close_error :: "session \<Rightarrow> go_error option"

section \<open>CreateServer\<close>

text \<open>\<^verbatim>\<open>strings.TrimRight(s, cutset)\<close>: \<open>s\<close> without its trailing characters of \<open>cutset\<close>.\<close>

definition TrimRight :: "string \<Rightarrow> string \<Rightarrow> string" where
  "TrimRight s cutset = rev (dropWhile (\<lambda>ch. ch \<in> set cutset) (rev s))"

definition CreateServer :: "string \<Rightarrow> string \<Rightarrow> string \<Rightarrow> string \<Rightarrow> Server" where
  "CreateServer frontendAddr' websocketPath backendUrl' replyPathPrefix =
     (let replyPath = TrimRight replyPathPrefix ''/'' @ ''/:id''
      in \<lparr>DefaultBackend = CreateBackend backendUrl',
          frontendAddr = frontendAddr',
          backendUrl = backendUrl',
          sessions = Map.empty,
          echoStack = [(GET, websocketPath, Route_handle), (POST, replyPath, Route_send)]\<rparr>)"

section \<open>handle: a WebSocket upgrade\<close>

text \<open>
  \<^verbatim>\<open>handle\<close> stores a new session under a new identifier, defers the deletion of that
  key, starts \<^verbatim>\<open>Receive\<close> of the stored session with a \<^verbatim>\<open>go\<close> statement and then blocks in
  \<^verbatim>\<open>handler.Handle\<close>. The identifier (\<^verbatim>\<open>uuid.NewString()\<close>) and the handler
  (\<^verbatim>\<open>frontend.NewWsHandler()\<close>) are inputs. \<open>handle_enter\<close> is the function up to the call of
  \<^verbatim>\<open>handler.Handle\<close>, and \<open>handle_exit\<close> is the deferred \<^verbatim>\<open>delete\<close>, which runs when
  \<^verbatim>\<open>handle\<close> returns and also when \<^verbatim>\<open>handler.Handle\<close> panics.
\<close>

definition new_session :: "Server \<Rightarrow> Context \<Rightarrow> string \<Rightarrow> ws_handler \<Rightarrow> session" where
  "new_session s c id' handler =
     NewSession \<lparr>Id_param = id',
                 Backend = DefaultBackend s,
                 ReplyChannel = Scheme c @ ''://'' @ Host c @ ''/reply/'' @ id',
                 Connection = handler\<rparr>"

definition handle_enter :: "Server \<Rightarrow> Context \<Rightarrow> string \<Rightarrow> ws_handler \<Rightarrow> Server" where
  "handle_enter s c id' handler =
     s\<lparr>sessions := (sessions s)(id' \<mapsto> new_session s c id' handler)\<rparr>"

definition handle_exit :: "Server \<Rightarrow> string \<Rightarrow> Server" where
  "handle_exit s id' = s\<lparr>sessions := (sessions s)(id' := None)\<rparr>"

text \<open>
  The whole call. While \<^verbatim>\<open>handler.Handle\<close> serves the connection, other requests are
  handled and change the map: \<open>during\<close> is their combined effect on the server, and \<open>panics\<close>
  tells whether \<^verbatim>\<open>handler.Handle\<close> panicked instead of returning.
\<close>

definition handle ::
  "Server \<Rightarrow> Context \<Rightarrow> string \<Rightarrow> ws_handler \<Rightarrow> (Server \<Rightarrow> Server) \<Rightarrow> bool \<Rightarrow> handled" where
  "handle s c id' handler during panics =
     (let s1 = handle_enter s c id' handler;
          started = sessions s1 id';
          s2 = during s1;
          s3 = handle_exit s2 id'
      in (s3,
          [MapStore id' (new_session s c id' handler), GoReceive started,
           HandlerHandle handler, MapDelete id'],
          if panics then Panicked else Returned None))"

section \<open>send: a reply POST\<close>

text \<open>
  Modelled from the spec: the methods \<^verbatim>\<open>Send\<close> and \<^verbatim>\<open>Close\<close> of \<^verbatim>\<open>*session.Session\<close>, whose
  package is not among the sources. By the spec \<^verbatim>\<open>Send\<close> reports a failed write without
  crashing the gateway and \<^verbatim>\<open>Close\<close> returns success or an error, so on a session both
  return; what \<^verbatim>\<open>Close\<close> returns is \<open>Close_error\<close>. On the nil pointer they read the fields
  of their receiver, which is a run-time panic in Go.

  \<open>send\<close> itself follows the statements of the source in order. The methods are called
  on the pointer read from the map; the branch for an absent session writes the 404
  response and does not return.
\<close>

definition send :: "Extern \<Rightarrow> Server \<Rightarrow> Context \<Rightarrow> handled" where
  "send x s c =
     (let id' = Param c ''id'';
          body = fst (ReadAll (Body c));
          session = sessions s id';
          e1 = (if session = None
                then [JSON 404 \<lparr>Success = False, Message = Some ''NOT_FOUND''\<rparr>] else []);
          e2 = e1 @ (if body \<noteq> [] then [SessionSend session body] else [])
      in if body \<noteq> [] \<and> session = None then (s, e2, Panicked)
         else if HeaderGet c (CommandHeader x) = TerminateSessionCommand x
         then (case session of
                 None \<Rightarrow> (s, e2 @ [SessionClose None], Panicked)
               | Some t \<Rightarrow>
                   (s,
                    e2 @ [SessionClose (Some t)]
                       @ (case Close_error x t of None \<Rightarrow> [] | Some err \<Rightarrow> [LoggerError err])
                       @ [JSON 200 \<lparr>Success = True, Message = None\<rparr>],
                    Returned None))
         else (s, e2 @ [JSON 200 \<lparr>Success = True, Message = None\<rparr>], Returned None))"

section \<open>The registry over the life of the connections\<close>

text \<open>
  Every session that \<^verbatim>\<open>handle\<close> stores carries the key it is stored under.
\<close>

definition reg_inv :: "Server \<Rightarrow> bool" where
  "reg_inv s = (\<forall>k t. sessions s k = Some t \<longrightarrow> Id_param (params t) = k)"

text \<open>
  A connection involves two flows: the call of \<^verbatim>\<open>handle\<close>, blocked in \<^verbatim>\<open>handler.Handle\<close>,
  and the goroutine running \<^verbatim>\<open>Receive\<close>. \<^verbatim>\<open>handle\<close> starts the goroutine with a \<^verbatim>\<open>go\<close>
  statement and never waits for it. \<^verbatim>\<open>Receive\<close> is a method of the session, built from
  \<^verbatim>\<open>SessionParams\<close> alone, and the map is an unexported field of \<^verbatim>\<open>Server\<close>, whose
  package imports the session package: the only writes to the map are the two in
  \<^verbatim>\<open>handle\<close>. So the steps of the gateway that concern the registry are: an upgrade
  reaching \<^verbatim>\<open>handler.Handle\<close>, the exit of a relay loop, and the return of a \<^verbatim>\<open>handle\<close>
  call. \<open>relays\<close> lists the identifiers whose relay loop is running.
\<close>

record World =
  srv :: Server
  relays :: "string list"

datatype step =
    Upgrade Context string ws_handler
  | ReceiveExit string
  | HandleReturn string

fun exec :: "World \<Rightarrow> step \<Rightarrow> World" where
  "exec w (Upgrade c id' handler) =
     w\<lparr>srv := handle_enter (srv w) c id' handler, relays := id' # relays w\<rparr>"
| "exec w (ReceiveExit id') = w\<lparr>relays := remove1 id' (relays w)\<rparr>"
| "exec w (HandleReturn id') = w\<lparr>srv := handle_exit (srv w) id'\<rparr>"

definition run :: "World \<Rightarrow> step list \<Rightarrow> World" where
  "run w steps = foldl exec w steps"

section \<open>Concrete inputs\<close>

definition ext0 :: Extern where
  "ext0 = \<lparr>CommandHeader = ''Ws-Command'',
           TerminateSessionCommand = ''terminate-session'',
           Close_error = (\<lambda>t. Some ''use of closed network connection'')\<rparr>"

definition srv0 :: Server where
  "srv0 = CreateServer '':3000'' ''/ws'' ''http://backend.local/hook'' ''/reply''"

definition upgrade0 :: Context where
  "upgrade0 = \<lparr>Scheme = ''http'', Host = ''gw.local'', Param = (\<lambda>n. []),
               HeaderGet = (\<lambda>k. []), Body = []\<rparr>"

definition srv1 :: Server where
  "srv1 = handle_enter (handle_enter srv0 upgrade0 ''a1'' (NewWsHandler 1))
                       upgrade0 ''b2'' (NewWsHandler 2)"

definition sess_a1 :: session where
  "sess_a1 = new_session srv0 upgrade0 ''a1'' (NewWsHandler 1)"

definition reply :: "string \<Rightarrow> reader \<Rightarrow> string \<Rightarrow> Context" where
  "reply id' r cmd =
     \<lparr>Scheme = ''http'', Host = ''gw.local'',
      Param = (\<lambda>n. if n = ''id'' then id' else []),
      HeaderGet = (\<lambda>k. if k = ''Ws-Command'' then cmd else []),
      Body = r\<rparr>"

definition sess_b2 :: session where
  "sess_b2 = new_session srv0 upgrade0 ''b2'' (NewWsHandler 2)"

definition srv_callback :: Server where
  "srv_callback = CreateServer '':3000'' ''/ws'' ''http://backend.local/hook'' ''/callback''"

definition world0 :: World where
  "world0 = \<lparr>srv = srv0, relays = []\<rparr>"

section \<open>Properties of send\<close>

lemma sessions_srv1_a1: "sessions srv1 ''a1'' = Some sess_a1"
  by (simp add: srv1_def sess_a1_def handle_enter_def new_session_def srv0_def CreateServer_def)

text \<open>
  Claim C10. A reply POST to a registered session with an empty body and without the
  termination directive calls neither \<^verbatim>\<open>Send\<close> nor \<^verbatim>\<open>Close\<close>, leaves the server and its
  registry as they were, and answers 200 with \<open>success: true\<close>: the only effect is that
  one response.
\<close>

theorem send_empty_no_directive:
  assumes "sessions s (Param c ''id'') = Some t"
    and "fst (ReadAll (Body c)) = []"
    and "HeaderGet c (CommandHeader x) \<noteq> TerminateSessionCommand x"
  shows "send x s c = (s, [JSON 200 \<lparr>Success = True, Message = None\<rparr>], Returned None)"
  using assms by (simp add: send_def)

theorem send_empty_no_directive_witness:
  "sessions srv1 (Param (reply ''a1'' [] []) ''id'') = Some sess_a1
   \<and> fst (ReadAll (Body (reply ''a1'' [] []))) = []
   \<and> HeaderGet (reply ''a1'' [] []) (CommandHeader ext0) \<noteq> TerminateSessionCommand ext0
   \<and> send ext0 srv1 (reply ''a1'' [] [])
       = (srv1, [JSON 200 \<lparr>Success = True, Message = None\<rparr>], Returned None)"
proof -
  have a: "sessions srv1 (Param (reply ''a1'' [] []) ''id'') = Some sess_a1"
    by (simp add: reply_def sessions_srv1_a1)
  have b: "fst (ReadAll (Body (reply ''a1'' [] []))) = []"
    by (simp add: reply_def)
  have c: "HeaderGet (reply ''a1'' [] []) (CommandHeader ext0) \<noteq> TerminateSessionCommand ext0"
    by (simp add: reply_def ext0_def)
  from send_empty_no_directive [OF a b c] a b c show ?thesis by simp
qed

lemma sessions_srv1_b2: "sessions srv1 ''b2'' = Some sess_b2"
  by (simp add: srv1_def sess_b2_def handle_enter_def new_session_def srv0_def CreateServer_def)

lemma sessions_srv1_zz: "sessions srv1 ''zz'' = None"
  by (simp add: srv1_def handle_enter_def srv0_def CreateServer_def)

lemma reg_inv_CreateServer: "reg_inv (CreateServer fa wp bu rp)"
  by (simp add: reg_inv_def CreateServer_def)

lemma reg_inv_handle_enter: "reg_inv s \<Longrightarrow> reg_inv (handle_enter s c k h)"
  by (simp add: reg_inv_def handle_enter_def new_session_def)

lemma reg_inv_handle_exit: "reg_inv s \<Longrightarrow> reg_inv (handle_exit s k)"
  by (simp add: reg_inv_def handle_exit_def)

lemma reg_inv_srv1: "reg_inv srv1"
  unfolding srv1_def srv0_def
  by (intro reg_inv_handle_enter reg_inv_CreateServer)

lemma SessionSend_in_effects:
  assumes "SessionSend p b \<in> set (effects (send x s c))"
  shows "p = sessions s (Param c ''id'') \<and> b = fst (ReadAll (Body c)) \<and> b \<noteq> []"
  using assms
  by (auto simp: send_def effects_def Let_def split: if_splits option.splits)

text \<open>
  Claim C2. With any number of sessions in the registry, a payload that a reply POST to
  \<^verbatim>\<open>/reply/<id>\<close> hands to \<^verbatim>\<open>Send\<close> goes to the pointer stored under \<open>id\<close> and to no
  session stored under another identifier.
\<close>

theorem send_no_cross_talk:
  assumes "reg_inv s"
    and "SessionSend p b \<in> set (effects (send x s c))"
    and "sessions s k = Some u"
    and "k \<noteq> Param c ''id''"
  shows "p = sessions s (Param c ''id'') \<and> p \<noteq> Some u"
proof -
  from assms(2) have p: "p = sessions s (Param c ''id'')"
    by (simp add: SessionSend_in_effects)
  have "p \<noteq> Some u"
  proof
    assume "p = Some u"
    with p have "sessions s (Param c ''id'') = Some u" by simp
    with assms(1) have "Id_param (params u) = Param c ''id''"
      by (simp add: reg_inv_def)
    moreover from assms(1,3) have "Id_param (params u) = k"
      by (simp add: reg_inv_def)
    ultimately show False using assms(4) by simp
  qed
  with p show ?thesis by simp
qed

theorem send_no_cross_talk_witness:
  "reg_inv srv1
   \<and> SessionSend (Some sess_a1) ''pong''
       \<in> set (effects (send ext0 srv1 (reply ''a1'' [(''pong'', Some EOF)] [])))
   \<and> sessions srv1 ''b2'' = Some sess_b2
   \<and> ''b2'' \<noteq> Param (reply ''a1'' [(''pong'', Some EOF)] []) ''id''
   \<and> Some sess_a1 = sessions srv1 (Param (reply ''a1'' [(''pong'', Some EOF)] []) ''id'')
   \<and> Some sess_a1 \<noteq> Some sess_b2"
proof -
  have a: "SessionSend (Some sess_a1) ''pong''
       \<in> set (effects (send ext0 srv1 (reply ''a1'' [(''pong'', Some EOF)] [])))"
    by (simp add: send_def effects_def reply_def sessions_srv1_a1 ext0_def)
  have b: "''b2'' \<noteq> Param (reply ''a1'' [(''pong'', Some EOF)] []) ''id''"
    by (simp add: reply_def)
  have c: "Some sess_a1 = sessions srv1 (Param (reply ''a1'' [(''pong'', Some EOF)] []) ''id'')
           \<and> Some sess_a1 \<noteq> Some sess_b2"
    by (rule send_no_cross_talk [OF reg_inv_srv1 a sessions_srv1_b2 b])
  show ?thesis
    using reg_inv_srv1 a sessions_srv1_b2 b c by blast
qed

text \<open>
  Claim C4. For a reply POST to a registered session, \<^verbatim>\<open>Send\<close> is called once, on that
  session and with exactly the body read, when the body is not empty; with an empty body
  \<^verbatim>\<open>Send\<close> is not called at all, so no frame goes to the client.
\<close>

theorem send_calls_Send_iff_body_nonempty:
  assumes "sessions s (Param c ''id'') = Some t"
  shows "filter is_SessionSend (effects (send x s c))
         = (if fst (ReadAll (Body c)) = [] then []
            else [SessionSend (Some t) (fst (ReadAll (Body c)))])"
  using assms
  by (simp add: send_def effects_def Let_def split: option.splits)

theorem send_calls_Send_iff_body_nonempty_witness:
  "sessions srv1 (Param (reply ''a1'' [(''po'', None), (''ng'', Some EOF)] []) ''id'') = Some sess_a1
   \<and> filter is_SessionSend
        (effects (send ext0 srv1 (reply ''a1'' [(''po'', None), (''ng'', Some EOF)] [])))
      = [SessionSend (Some sess_a1) ''pong'']
   \<and> sessions srv1 (Param (reply ''a1'' [] ''terminate-session'') ''id'') = Some sess_a1
   \<and> filter is_SessionSend (effects (send ext0 srv1 (reply ''a1'' [] ''terminate-session''))) = []"
proof -
  have a: "sessions srv1 (Param (reply ''a1'' [(''po'', None), (''ng'', Some EOF)] []) ''id'')
           = Some sess_a1"
    by (simp add: reply_def sessions_srv1_a1)
  have b: "sessions srv1 (Param (reply ''a1'' [] ''terminate-session'') ''id'') = Some sess_a1"
    by (simp add: reply_def sessions_srv1_a1)
  have r1: "fst (ReadAll (Body (reply ''a1'' [(''po'', None), (''ng'', Some EOF)] []))) = ''pong''"
    by (simp add: reply_def)
  have r2: "fst (ReadAll (Body (reply ''a1'' [] ''terminate-session''))) = []"
    by (simp add: reply_def)
  from send_calls_Send_iff_body_nonempty [OF a, of ext0]
       send_calls_Send_iff_body_nonempty [OF b, of ext0] a b
  show ?thesis by (simp add: r1 r2)
qed

text \<open>
  Claim C5. For a reply POST to a registered session carrying the termination directive,
  \<^verbatim>\<open>Close\<close> is called on that session after the payload (if any) was handed to \<^verbatim>\<open>Send\<close>;
  an error returned by \<^verbatim>\<open>Close\<close> is logged, and the response is 200 with
  \<open>success: true\<close> in either case.
\<close>

theorem send_terminate_closes_and_acknowledges:
  assumes "sessions s (Param c ''id'') = Some t"
    and "HeaderGet c (CommandHeader x) = TerminateSessionCommand x"
  shows "send x s c =
           (s,
            (if fst (ReadAll (Body c)) = [] then []
             else [SessionSend (Some t) (fst (ReadAll (Body c)))])
            @ [SessionClose (Some t)]
            @ (case Close_error x t of None \<Rightarrow> [] | Some err \<Rightarrow> [LoggerError err])
            @ [JSON 200 \<lparr>Success = True, Message = None\<rparr>],
            Returned None)"
  using assms by (simp add: send_def Let_def)

theorem send_terminate_closes_and_acknowledges_witness:
  "sessions srv1 (Param (reply ''a1'' [(''bye'', Some EOF)] ''terminate-session'') ''id'')
     = Some sess_a1
   \<and> HeaderGet (reply ''a1'' [(''bye'', Some EOF)] ''terminate-session'') (CommandHeader ext0)
     = TerminateSessionCommand ext0
   \<and> send ext0 srv1 (reply ''a1'' [(''bye'', Some EOF)] ''terminate-session'') =
       (srv1,
        [SessionSend (Some sess_a1) ''bye'', SessionClose (Some sess_a1),
         LoggerError ''use of closed network connection'',
         JSON 200 \<lparr>Success = True, Message = None\<rparr>],
        Returned None)"
proof -
  have a: "sessions srv1 (Param (reply ''a1'' [(''bye'', Some EOF)] ''terminate-session'') ''id'')
     = Some sess_a1"
    by (simp add: reply_def sessions_srv1_a1)
  have b: "HeaderGet (reply ''a1'' [(''bye'', Some EOF)] ''terminate-session'') (CommandHeader ext0)
     = TerminateSessionCommand ext0"
    by (simp add: reply_def ext0_def)
  have r: "fst (ReadAll (Body (reply ''a1'' [(''bye'', Some EOF)] ''terminate-session''))) = ''bye''"
    by (simp add: reply_def)
  have e: "Close_error ext0 sess_a1 = Some ''use of closed network connection''"
    by (simp add: ext0_def)
  from send_terminate_closes_and_acknowledges [OF a b] a b
  show ?thesis by (simp add: r e)
qed

section \<open>Replies to an unknown identifier\<close>

text \<open>
  Claim C1. A reply POST to an identifier that is not in the registry should be answered
  with 404 \<open>NOT_FOUND\<close> and nothing else. The branch for the nil session writes that
  response and falls through: with an empty body and no termination directive the handler
  goes on to write the 200 response with \<open>success: true\<close> as well.
\<close>

theorem send_unknown_id_writes_both_responses:
  "sessions srv1 (Param (reply ''zz'' [] []) ''id'') = None
   \<and> send ext0 srv1 (reply ''zz'' [] []) =
       (srv1,
        [JSON 404 \<lparr>Success = False, Message = Some ''NOT_FOUND''\<rparr>,
         JSON 200 \<lparr>Success = True, Message = None\<rparr>],
        Returned None)"
  by (simp add: send_def reply_def sessions_srv1_zz ext0_def)

section \<open>The reply address\<close>

text \<open>
  Claim C3. The reply address of a new session should use the reply path prefix given to
  \<^verbatim>\<open>CreateServer\<close>. On a server created with the prefix \<^verbatim>\<open>/callback\<close> the reply route is
  \<^verbatim>\<open>/callback/:id\<close>, while the session's reply address still has the path \<^verbatim>\<open>/reply/a1\<close>.
\<close>

theorem reply_address_fixed_to_reply_prefix:
  "echoStack srv_callback = [(GET, ''/ws'', Route_handle), (POST, ''/callback/:id'', Route_send)]
   \<and> sessions (handle_enter srv_callback upgrade0 ''a1'' (NewWsHandler 1)) ''a1''
       = Some (NewSession \<lparr>Id_param = ''a1'',
                           Backend = CreateBackend ''http://backend.local/hook'',
                           ReplyChannel = ''http://gw.local/reply/a1'',
                           Connection = NewWsHandler 1\<rparr>)"
  by (simp add: srv_callback_def CreateServer_def TrimRight_def handle_enter_def
      new_session_def upgrade0_def)

section \<open>Insertion and removal\<close>

text \<open>
  Claim C6, as stated: the removal from the registry is triggered by the exit of the relay
  loop \<^verbatim>\<open>Receive\<close>. When the relay loop of \<open>a1\<close> has exited and \<^verbatim>\<open>handle\<close> has not yet
  returned, the session is still registered; when \<^verbatim>\<open>handle\<close> returns while the relay loop
  is running, the session is removed.
\<close>

theorem removal_not_at_Receive_exit:
  "sessions (srv (run world0 [Upgrade upgrade0 ''a1'' (NewWsHandler 1), ReceiveExit ''a1''])) ''a1''
     = Some sess_a1
   \<and> relays (run world0 [Upgrade upgrade0 ''a1'' (NewWsHandler 1), ReceiveExit ''a1'']) = []
   \<and> sessions (srv (run world0 [Upgrade upgrade0 ''a1'' (NewWsHandler 1), HandleReturn ''a1''])) ''a1''
     = None
   \<and> relays (run world0 [Upgrade upgrade0 ''a1'' (NewWsHandler 1), HandleReturn ''a1'']) = [''a1'']"
  by (simp add: run_def world0_def handle_enter_def handle_exit_def sess_a1_def)

text \<open>
  Claim C6, amended: a call of \<^verbatim>\<open>handle\<close> stores its session exactly once, right at its
  creation, and deletes its identifier exactly once, as its last effect, when the call
  returns after \<^verbatim>\<open>handler.Handle\<close> returned or panicked; afterwards the identifier is
  not registered. The exit of a relay loop leaves the registry as it is.
\<close>

theorem handle_stores_once_deletes_once:
  "filter is_MapStore (effects (handle s c k h during panics)) = [MapStore k (new_session s c k h)]
   \<and> filter is_MapDelete (effects (handle s c k h during panics)) = [MapDelete k]
   \<and> last (effects (handle s c k h during panics)) = MapDelete k
   \<and> sessions (handle_enter s c k h) k = Some (new_session s c k h)
   \<and> sessions (server_after (handle s c k h during panics)) k = None
   \<and> srv (exec w (ReceiveExit j)) = srv w"
  by (simp add: handle_def effects_def server_after_def handle_enter_def handle_exit_def Let_def)

section \<open>An identifier that is already registered\<close>

text \<open>
  Claim C7, as stated: registering under an identifier that is already present fails with
  \<open>DuplicateId\<close> and keeps the existing session. With \<open>a1\<close> registered, an upgrade that
  draws \<open>a1\<close> again stores the new session in place of the registered one, and \<^verbatim>\<open>handle\<close>
  returns nil.
\<close>

theorem duplicate_id_replaces_session:
  "sessions srv1 ''a1'' = Some sess_a1
   \<and> sessions (handle_enter srv1 upgrade0 ''a1'' (NewWsHandler 7)) ''a1''
       = Some (new_session srv1 upgrade0 ''a1'' (NewWsHandler 7))
   \<and> new_session srv1 upgrade0 ''a1'' (NewWsHandler 7) \<noteq> sess_a1
   \<and> result (handle srv1 upgrade0 ''a1'' (NewWsHandler 7) (\<lambda>s. s) False) = Returned None"
  by (simp add: sessions_srv1_a1 handle_enter_def new_session_def sess_a1_def handle_def
      result_def Let_def)

text \<open>
  Claim C7, amended: when the identifier is already registered, \<^verbatim>\<open>handle\<close> replaces the
  registered session by the new one, leaves every other entry alone and reports no error;
  there is no duplicate check.
\<close>

theorem handle_stores_over_existing:
  assumes "sessions s k = Some old"
  shows "sessions (handle_enter s c k h) k = Some (new_session s c k h)
         \<and> (\<forall>j. j \<noteq> k \<longrightarrow> sessions (handle_enter s c k h) j = sessions s j)
         \<and> effects (handle s c k h during False)
             = [MapStore k (new_session s c k h), GoReceive (Some (new_session s c k h)),
                HandlerHandle h, MapDelete k]
         \<and> result (handle s c k h during False) = Returned None"
  by (simp add: handle_enter_def handle_def result_def effects_def Let_def)

theorem handle_stores_over_existing_witness:
  "sessions srv1 ''a1'' = Some sess_a1
   \<and> sessions (handle_enter srv1 upgrade0 ''a1'' (NewWsHandler 7)) ''a1''
       = Some (new_session srv1 upgrade0 ''a1'' (NewWsHandler 7))
   \<and> sessions (handle_enter srv1 upgrade0 ''a1'' (NewWsHandler 7)) ''b2'' = Some sess_b2
   \<and> result (handle srv1 upgrade0 ''a1'' (NewWsHandler 7) (\<lambda>s. s) False) = Returned None"
proof -
  note h = handle_stores_over_existing [OF sessions_srv1_a1, of upgrade0 "NewWsHandler 7" "\<lambda>s. s"]
  from h have a: "sessions (handle_enter srv1 upgrade0 ''a1'' (NewWsHandler 7)) ''a1''
          = Some (new_session srv1 upgrade0 ''a1'' (NewWsHandler 7))"
    by (elim conjE)
  from h have "\<forall>j. j \<noteq> ''a1'' \<longrightarrow>
      sessions (handle_enter srv1 upgrade0 ''a1'' (NewWsHandler 7)) j = sessions srv1 j"
    by (elim conjE)
  then have "''b2'' \<noteq> ''a1'' \<longrightarrow>
      sessions (handle_enter srv1 upgrade0 ''a1'' (NewWsHandler 7)) ''b2'' = sessions srv1 ''b2''"
    by (rule spec)
  then have b: "sessions (handle_enter srv1 upgrade0 ''a1'' (NewWsHandler 7)) ''b2'' = Some sess_b2"
    by (simp add: sessions_srv1_b2)
  from h have c: "result (handle srv1 upgrade0 ''a1'' (NewWsHandler 7) (\<lambda>s. s) False) = Returned None"
    by (elim conjE)
  from sessions_srv1_a1 a b c show ?thesis
    by (intro conjI)
qed

section \<open>A request body that cannot be read\<close>

text \<open>
  Claim C9, as stated: when \<^verbatim>\<open>io.ReadAll\<close> returns an error, the call behaves as if the
  payload were empty. A body that fails after the bytes \<open>par\<close> were read gives \<open>par\<close>
  together with the error; \<^verbatim>\<open>send\<close> hands \<open>par\<close> to \<^verbatim>\<open>Send\<close>, which it does not do for
  an empty payload.
\<close>

theorem read_error_keeps_partial_body:
  "ReadAll (Body (reply ''a1'' [(''par'', Some (ReadError ''unexpected EOF''))] []))
     = (''par'', Some ''unexpected EOF'')
   \<and> send ext0 srv1 (reply ''a1'' [(''par'', Some (ReadError ''unexpected EOF''))] []) =
       (srv1,
        [SessionSend (Some sess_a1) ''par'', JSON 200 \<lparr>Success = True, Message = None\<rparr>],
        Returned None)
   \<and> send ext0 srv1 (reply ''a1'' [] []) =
       (srv1, [JSON 200 \<lparr>Success = True, Message = None\<rparr>], Returned None)"
  by (simp add: send_def reply_def sessions_srv1_a1 ext0_def)

text \<open>
  Claim C9, amended: the read error is discarded, and the call behaves exactly as if the
  payload were the bytes that \<^verbatim>\<open>io.ReadAll\<close> returned along with the error, read without
  error; for a registered session the call still returns normally with the 200 response
  \<open>success: true\<close> as its last effect.
\<close>

theorem send_discards_read_error:
  assumes "ReadAll r = (got, Some err)"
  shows "send x s (c\<lparr>Body := r\<rparr>) = send x s (c\<lparr>Body := [(got, Some EOF)]\<rparr>)
         \<and> (sessions s (Param c ''id'') \<noteq> None \<longrightarrow>
              result (send x s (c\<lparr>Body := r\<rparr>)) = Returned None
              \<and> last (effects (send x s (c\<lparr>Body := r\<rparr>)))
                  = JSON 200 \<lparr>Success = True, Message = None\<rparr>)"
  using assms
  by (auto simp: send_def result_def effects_def Let_def split: option.splits)

theorem send_discards_read_error_witness:
  "ReadAll [(''par'', Some (ReadError ''unexpected EOF''))] = (''par'', Some ''unexpected EOF'')
   \<and> send ext0 srv1 (reply ''a1'' [(''par'', Some (ReadError ''unexpected EOF''))] [])
       = send ext0 srv1 (reply ''a1'' [(''par'', Some EOF)] [])
   \<and> sessions srv1 ''a1'' \<noteq> None
   \<and> result (send ext0 srv1 (reply ''a1'' [(''par'', Some (ReadError ''unexpected EOF''))] []))
       = Returned None
   \<and> last (effects (send ext0 srv1 (reply ''a1'' [(''par'', Some (ReadError ''unexpected EOF''))] [])))
       = JSON 200 \<lparr>Success = True, Message = None\<rparr>"
proof -
  have a: "ReadAll [(''par'', Some (ReadError ''unexpected EOF''))]
           = (''par'', Some ''unexpected EOF'')"
    by simp
  have u: "(reply ''a1'' [] [])\<lparr>Body := rd\<rparr> = reply ''a1'' rd []" for rd
    by (simp add: reply_def)
  have p: "Param (reply ''a1'' [] []) ''id'' = ''a1''"
    by (simp add: reply_def)
  have r: "sessions srv1 ''a1'' \<noteq> None"
    by (simp add: sessions_srv1_a1)
  note h = send_discards_read_error [OF a, of ext0 srv1 "reply ''a1'' [] []", unfolded u p]
  from h have b: "send ext0 srv1 (reply ''a1'' [(''par'', Some (ReadError ''unexpected EOF''))] [])
       = send ext0 srv1 (reply ''a1'' [(''par'', Some EOF)] [])"
    by (rule conjunct1)
  from h have "sessions srv1 ''a1'' \<noteq> None \<longrightarrow>
       result (send ext0 srv1 (reply ''a1'' [(''par'', Some (ReadError ''unexpected EOF''))] []))
       = Returned None
   \<and> last (effects (send ext0 srv1 (reply ''a1'' [(''par'', Some (ReadError ''unexpected EOF''))] [])))
       = JSON 200 \<lparr>Success = True, Message = None\<rparr>"
    by (rule conjunct2)
  from this r have c: "result (send ext0 srv1 (reply ''a1'' [(''par'', Some (ReadError ''unexpected EOF''))] []))
       = Returned None
   \<and> last (effects (send ext0 srv1 (reply ''a1'' [(''par'', Some (ReadError ''unexpected EOF''))] [])))
       = JSON 200 \<lparr>Success = True, Message = None\<rparr>"
    by (rule mp)
  from c have c1: "result (send ext0 srv1 (reply ''a1'' [(''par'', Some (ReadError ''unexpected EOF''))] []))
       = Returned None"
    by (rule conjunct1)
  from c have c2: "last (effects (send ext0 srv1 (reply ''a1'' [(''par'', Some (ReadError ''unexpected EOF''))] [])))
       = JSON 200 \<lparr>Success = True, Message = None\<rparr>"
    by (rule conjunct2)
  from a b r c1 c2 show ?thesis
    by (intro conjI)
qed

end
